theory Spec2Isabelle
  imports Complex_Main "HOL-Library.Monad_Syntax"
begin

section \<open>The multi-adaptive time slab of dolfin/ode/MultiAdaptiveTimeSlab.cpp\<close>

text \<open>
  The C++ type \<open>real\<close> is modelled by the HOL reals, \<open>uint\<close> by \<open>nat\<close> and \<open>int\<close> by
  \<open>int\<close> (no claim treated here depends on wrap-around). A raw array is a list whose
  length is the allocated capacity. A read or a write outside the allocation is undefined
  behaviour in C++; in the model it is the result \<open>None\<close>, and so is a failed
  \<open>dolfin_assert\<close> when assertions are compiled in. The collaborators that are not part
  of this file (ODE, Method, Adaptivity, Partition, the configuration) are the fields of
  the record \<open>env\<close>.
\<close>

subsection \<open>Collaborators\<close>

datatype method_type = cG | dG

record env =
  N :: nat
    \<comment> \<open>\<open>ode.size()\<close>, the number of components\<close>
  ode_dependencies :: "nat list list"
    \<comment> \<open>\<open>ode.dependencies[i]\<close>\<close>
  ode_transpose :: "nat list list"
    \<comment> \<open>\<open>ode.transpose[i]\<close>\<close>
  ode_f :: "real list \<Rightarrow> real \<Rightarrow> nat \<Rightarrow> real"
  ode_update :: "real list \<Rightarrow> real \<Rightarrow> bool \<Rightarrow> bool"
  ode_endtime :: real
  mtype :: method_type
    \<comment> \<open>\<open>method->type()\<close>\<close>
  nsize :: nat
  qsize :: nat
  npoint :: "nat \<Rightarrow> real"
  qpoint :: "nat \<Rightarrow> real"
  ueval :: "real \<Rightarrow> real list \<Rightarrow> real \<Rightarrow> real"
    \<comment> \<open>\<open>method->ueval(x0, jx + j, tau)\<close>; the pointer \<open>jx + j\<close> is the suffix \<open>drop j jx\<close>\<close>
  kmax :: real
    \<comment> \<open>\<open>adaptivity.kmax()\<close>\<close>
  threshold :: real
    \<comment> \<open>\<open>adaptivity.threshold()\<close>\<close>
  residual :: "nat \<Rightarrow> real"
    \<comment> \<open>\<open>adaptivity.residual(i)\<close>\<close>
  part_update :: "nat list \<Rightarrow> nat \<Rightarrow> real \<Rightarrow> nat list \<times> nat \<times> real"
    \<comment> \<open>\<open>partition.update(offset, end, adaptivity, K)\<close>: from the permutation, the offset
        and \<open>K\<close> to the new permutation, \<open>end\<close> and the returned step\<close>
  real_epsilon :: real
  save_final :: bool
  debug :: bool
    \<comment> \<open>whether \<open>dolfin_assert\<close> is compiled in\<close>

subsection \<open>The state of a time slab\<close>

record slab =
  sa :: "real list"
  sb :: "real list"
  ei :: "nat list"
  es :: "nat list"
  ee :: "int list"
  ed :: "nat list"
  jx :: "real list"
  de :: "int list"
  ns :: nat
  ne :: nat
  nj :: nat
  nd :: nat
  size_s_next :: nat
  size_s_size :: nat
  size_e_next :: nat
  size_e_size :: nat
  size_j_next :: nat
  size_j_size :: nat
  size_d_next :: nat
  size_d_size :: nat
  elast :: "int list"
  f0 :: "real list"
  u :: "real list"
  u0 :: "real list"
  emax :: nat
  kmin :: real
  slab_a :: real
  slab_b :: real
  indices :: "nat list"
    \<comment> \<open>the permutation held by \<open>partition\<close>; \<open>partition.index(n)\<close> is \<open>indices ! n\<close>\<close>
  written :: "real list list"
    \<comment> \<open>the samples handed to \<open>write\<close>\<close>
  messages :: "string list"
    \<comment> \<open>what \<open>message\<close> and \<open>cout\<close> have printed\<close>

subsection \<open>Array access and assertions\<close>

definition rd :: "'a list \<Rightarrow> nat \<Rightarrow> 'a option" where
  "rd xs i = (if i < length xs then Some (xs ! i) else None)"

definition rdi :: "'a list \<Rightarrow> int \<Rightarrow> 'a option" where
  "rdi xs e = (if 0 \<le> e \<and> nat e < length xs then Some (xs ! nat e) else None)"

definition wr :: "'a list \<Rightarrow> nat \<Rightarrow> 'a \<Rightarrow> 'a list option" where
  "wr xs i v = (if i < length xs then Some (xs[i := v]) else None)"

definition dolfin_assert :: "env \<Rightarrow> bool \<Rightarrow> unit option" where
  "dolfin_assert E c = (if debug E \<and> \<not> c then None else Some ())"

subsection \<open>Interval predicates\<close>

definition within3 :: "env \<Rightarrow> real \<Rightarrow> real \<Rightarrow> real \<Rightarrow> bool" where
  \<comment> \<open>\<open>within(t, a, b)\<close>\<close>
  "within3 E t a b \<longleftrightarrow> (a + real_epsilon E) < t \<and> t \<le> (b + real_epsilon E)"

definition within4 :: "env \<Rightarrow> real \<Rightarrow> real \<Rightarrow> real \<Rightarrow> real \<Rightarrow> bool" where
  \<comment> \<open>\<open>within(a0, b0, a1, b1)\<close>: is \<open>[a0, b0]\<close> contained in \<open>[a1, b1]\<close>\<close>
  "within4 E a0 b0 a1 b1 \<longleftrightarrow> a1 \<le> (a0 + real_epsilon E) \<and> (b0 - real_epsilon E) \<le> b1"

subsection \<open>Choice of the solver\<close>

datatype solver = MultiAdaptiveFixedPointSolver | MultiAdaptiveNewtonSolver

text \<open>
  \<open>error(...)\<close> does not return: the result is \<open>Inl\<close> of its message. Otherwise the
  result is the solver built and the line given to \<open>message\<close>. The format \<open>%s\<close> of the
  last branch is filled in.
\<close>

definition chooseSolver :: "bool \<Rightarrow> string \<Rightarrow> string + (solver \<times> string)" where
  "chooseSolver implicit solver_name =
     (if implicit then
        Inl ''Multi-adaptive solver cannot solver implicit ODEs. Use cG(q) or dG(q) instead.''
      else if solver_name = ''fixed-point'' then
        Inr (MultiAdaptiveFixedPointSolver, ''Using multi-adaptive fixed-point solver.'')
      else if solver_name = ''newton'' then
        Inr (MultiAdaptiveNewtonSolver, ''Using multi-adaptive Newton solver.'')
      else if solver_name = ''default'' then
        Inr (MultiAdaptiveFixedPointSolver,
             ''Using multi-adaptive fixed-point solver (default for mc/dG(q)).'')
      else
        Inl (''Uknown solver type: '' @ solver_name @ ''.''))"

subsection \<open>Allocation\<close>

text \<open>
  \<open>Alloc::realloc(&xs, oldsize, newsize)\<close> is not part of the file. It is taken to
  return an array of \<open>newsize\<close> cells that starts with the old \<open>oldsize\<close> cells; the
  new cells hold \<open>fill\<close> (the arena functions below pass 0; every cell is written
  before it is read).
\<close>

definition realloc :: "'a \<Rightarrow> 'a list \<Rightarrow> nat \<Rightarrow> nat \<Rightarrow> 'a list" where
  "realloc fill xs oldsize newsize = take oldsize xs @ replicate (newsize - oldsize) fill"

definition alloc_s :: "nat \<Rightarrow> slab \<Rightarrow> slab" where
  "alloc_s newsize s =
     (let s1 = s\<lparr>size_s_next := 0\<rparr> in
      if newsize \<le> size_s_size s1 then s1
      else s1\<lparr>sa := realloc 0 (sa s1) (size_s_size s1) newsize,
              sb := realloc 0 (sb s1) (size_s_size s1) newsize,
              size_s_size := newsize\<rparr>)"

definition alloc_e :: "nat \<Rightarrow> slab \<Rightarrow> slab" where
  "alloc_e newsize s =
     (let s1 = s\<lparr>size_e_next := 0\<rparr> in
      if newsize \<le> size_e_size s1 then s1
      else s1\<lparr>ei := realloc 0 (ei s1) (size_e_size s1) newsize,
              es := realloc 0 (es s1) (size_e_size s1) newsize,
              ee := realloc 0 (ee s1) (size_e_size s1) newsize,
              ed := realloc 0 (ed s1) (size_e_size s1) newsize,
              size_e_size := newsize\<rparr>)"

definition alloc_j :: "nat \<Rightarrow> slab \<Rightarrow> slab" where
  "alloc_j newsize s =
     (let s1 = s\<lparr>size_j_next := 0\<rparr> in
      if newsize \<le> size_j_size s1 then s1
      else s1\<lparr>jx := realloc 0 (jx s1) (size_j_size s1) newsize,
              size_j_size := newsize\<rparr>)"

definition alloc_d :: "nat \<Rightarrow> slab \<Rightarrow> slab" where
  "alloc_d newsize s =
     (let s1 = s\<lparr>size_d_next := 0\<rparr> in
      if newsize \<le> size_d_size s1 then s1
      else s1\<lparr>de := realloc 0 (de s1) (size_d_size s1) newsize,
              size_d_size := newsize\<rparr>)"

subsection \<open>Sampling\<close>

definition usample :: "env \<Rightarrow> slab \<Rightarrow> nat \<Rightarrow> real \<Rightarrow> real option" where
  "usample E s i t = do {
     e \<leftarrow> rd (elast s) i;
     _ \<leftarrow> dolfin_assert E (e \<noteq> -1);
     s1 \<leftarrow> rdi (es s) e;
     let j = nat e * nsize E;
     a \<leftarrow> rd (sa s) s1;
     b \<leftarrow> rd (sb s) s1;
     let k = b - a;
     ep \<leftarrow> rdi (ee s) e;
     x0 \<leftarrow> (if ep \<noteq> -1 then rdi (jx s) (ep * int (nsize E) + int (nsize E) - 1)
            else rd (u0 s) i);
     let tau = (t - a) / k;
     Some (ueval E x0 (drop j (jx s)) tau)
   }"

definition ksample :: "env \<Rightarrow> slab \<Rightarrow> nat \<Rightarrow> real \<Rightarrow> (real \<times> slab) option" where
  "ksample E s i t = do {
     e \<leftarrow> rd (elast s) i;
     _ \<leftarrow> dolfin_assert E (e \<noteq> -1);
     s1 \<leftarrow> rdi (es s) e;
     a \<leftarrow> rd (sa s) s1;
     b \<leftarrow> rd (sb s) s1;
     let k = b - a;
     Some (k, s)
   }"

definition rsample :: "env \<Rightarrow> slab \<Rightarrow> nat \<Rightarrow> real \<Rightarrow> (real \<times> slab) option" where
  "rsample E s i t = Some (residual E i, s)"

subsection \<open>Loops over an index range\<close>

primrec iterate :: "('a \<Rightarrow> 's \<Rightarrow> 's option) \<Rightarrow> 'a list \<Rightarrow> 's \<Rightarrow> 's option" where
  "iterate body [] s = Some s"
| "iterate body (x # xs) s = (case body x s of None \<Rightarrow> None | Some s1 \<Rightarrow> iterate body xs s1)"

subsection \<open>Covering a time\<close>

primrec coverCheck :: "env \<Rightarrow> slab \<Rightarrow> real \<Rightarrow> nat list \<Rightarrow> (bool \<times> nat) option" where
  \<comment> \<open>the first loop of \<open>coverTime\<close>: the flag \<open>ok\<close> and the new \<open>emax\<close>\<close>
  "coverCheck E s t [] = Some (True, emax s)"
| "coverCheck E s t (i # rest) = do {
     e \<leftarrow> rd (elast s) i;
     if e = -1 then Some (False, 0)
     else do {
       s1 \<leftarrow> rdi (es s) e;
       a \<leftarrow> rd (sa s) s1;
       b \<leftarrow> rd (sb s) s1;
       if t < (a + real_epsilon E) then Some (False, 0)
       else if t > (b + real_epsilon E) then Some (False, emax s)
       else coverCheck E s t rest
     }
   }"

fun coverSweep :: "env \<Rightarrow> real \<Rightarrow> nat \<Rightarrow> nat \<Rightarrow> slab \<Rightarrow> slab option" where
  \<comment> \<open>the last loop of \<open>coverTime\<close>, from element \<open>e\<close>, with \<open>n = ne - e\<close> iterations left\<close>
  "coverSweep E t 0 e s = Some s"
| "coverSweep E t (Suc n) e s = do {
     s1 \<leftarrow> rd (es s) e;
     i \<leftarrow> rd (ei s) e;
     a \<leftarrow> rd (sa s) s1;
     if t < (a + real_epsilon E) \<and> slab_a s < (a - real_epsilon E) then Some s
     else do {
       el \<leftarrow> wr (elast s) i (int e);
       coverSweep E t n (Suc e) (s\<lparr>elast := el, emax := e\<rparr>)
     }
   }"

definition coverTime :: "env \<Rightarrow> real \<Rightarrow> slab \<Rightarrow> slab option" where
  "coverTime E t s = do {
     (ok, em) \<leftarrow> coverCheck E s t [0..<N E];
     let s1 = s\<lparr>emax := em\<rparr>;
     if ok then Some s1
     else do {
       em2 \<leftarrow> (if emax s1 \<ge> ne s1 then Some 0
               else do {
                 s2 \<leftarrow> rd (es s1) (emax s1);
                 a \<leftarrow> rd (sa s1) s2;
                 Some (if t < (a + real_epsilon E) then 0 else emax s1)
               });
       let s3 = s1\<lparr>emax := em2\<rparr>;
       coverSweep E t (ne s3 - em2) em2 s3
     }
   }"

definition sample :: "env \<Rightarrow> real \<Rightarrow> slab \<Rightarrow> slab option" where
  "sample E t s = coverTime E t s"

subsection \<open>Shifting\<close>

definition shift_u :: "env \<Rightarrow> nat \<Rightarrow> slab \<Rightarrow> slab option" where
  \<comment> \<open>the body of the first loop of \<open>shift\<close>; the second assertion reads the arrays
      only when assertions are compiled in\<close>
  "shift_u E i s = do {
     e \<leftarrow> rd (elast s) i;
     _ \<leftarrow> dolfin_assert E (e \<noteq> -1);
     _ \<leftarrow> (if debug E then do {
             s1 \<leftarrow> rdi (es s) e;
             b \<leftarrow> rd (sb s) s1;
             dolfin_assert E (b = slab_b s)
           } else Some ());
     x \<leftarrow> rdi (jx s) (e * int (nsize E) + int (nsize E) - 1);
     uu \<leftarrow> wr (u s) i x;
     Some (s\<lparr>u := uu\<rparr>)
   }"

definition shift_u0 :: "nat \<Rightarrow> slab \<Rightarrow> slab option" where
  \<comment> \<open>the body of the last loop of \<open>shift\<close>: \<open>u0[i] = u[i]\<close>\<close>
  "shift_u0 i s = do {
     x \<leftarrow> rd (u s) i;
     v \<leftarrow> wr (u0 s) i x;
     Some (s\<lparr>u0 := v\<rparr>)
   }"

text \<open>
  \<open>write(N, u)\<close> hands the sample to the output file; it prints no message. The model
  appends the sample to \<open>written\<close>. The hook \<open>ode.update\<close> only reads its arguments.
\<close>

definition shift :: "env \<Rightarrow> bool \<Rightarrow> slab \<Rightarrow> (bool \<times> slab) option" where
  "shift E end_flag s = do {
     s1 \<leftarrow> coverTime E (slab_b s) s;
     s2 \<leftarrow> iterate (shift_u E) [0..<N E] s1;
     let s3 = (if save_final E \<and> end_flag
               then s2\<lparr>written := written s2 @ [take (N E) (u s2)]\<rparr> else s2);
     if \<not> ode_update E (u s3) (slab_b s3) end_flag then Some (False, s3)
     else do {
       s4 \<leftarrow> iterate shift_u0 [0..<N E] s3;
       Some (True, s4)
     }
   }"

subsection \<open>The end time of a sub slab\<close>

definition computeEndTime :: "env \<Rightarrow> real \<Rightarrow> real \<Rightarrow> nat \<Rightarrow> slab \<Rightarrow> real \<times> nat \<times> slab" where
  \<comment> \<open>the result is the new \<open>b\<close>, the reference parameter \<open>end\<close> and the state\<close>
  "computeEndTime E a b offset s =
     (let K = min (kmax E) (b - a);
          (idx, end_pos, K1) = part_update E (indices s) offset K;
          b1 = (if K1 < threshold E * (b - a) then a + K1 else b)
      in (b1, end_pos, s\<lparr>indices := idx, kmin := min (kmin s) (b1 - a)\<rparr>))"

subsection \<open>The dry run\<close>

primrec countDependencies_u :: "env \<Rightarrow> slab \<Rightarrow> nat \<Rightarrow> nat list \<Rightarrow> nat option" where
  \<comment> \<open>the loop of \<open>countDependencies(i0)\<close> over the dependencies \<open>deps\<close>\<close>
  "countDependencies_u E s i0 [] = Some 0"
| "countDependencies_u E s i0 (i1 # deps) = do {
     x0 \<leftarrow> rd (u s) i0;
     x1 \<leftarrow> rd (u s) i1;
     n \<leftarrow> countDependencies_u E s i0 deps;
     Some ((if x0 > (x1 + real_epsilon E) then nsize E else 0) + n)
   }"

definition countDependencies1 :: "env \<Rightarrow> slab \<Rightarrow> nat \<Rightarrow> nat option" where
  \<comment> \<open>\<open>countDependencies(uint i0)\<close>\<close>
  "countDependencies1 E s i0 = do {
     deps \<leftarrow> rd (ode_dependencies E) i0;
     countDependencies_u E s i0 deps
   }"

definition mark_u :: "real \<Rightarrow> nat \<Rightarrow> slab \<Rightarrow> slab option" where
  \<comment> \<open>\<open>u[partition.index(n)] = b\<close>\<close>
  "mark_u b n s = do {
     i \<leftarrow> rd (indices s) n;
     uu \<leftarrow> wr (u s) i b;
     Some (s\<lparr>u := uu\<rparr>)
   }"

definition count_nd :: "env \<Rightarrow> nat \<Rightarrow> slab \<Rightarrow> slab option" where
  \<comment> \<open>\<open>nd += countDependencies(partition.index(n))\<close>\<close>
  "count_nd E n s = do {
     i \<leftarrow> rd (indices s) n;
     c \<leftarrow> countDependencies1 E s i;
     Some (s\<lparr>nd := nd s + c\<rparr>)
   }"

text \<open>
  The recursion of \<open>computeDataSize\<close> and its \<open>while\<close> loop need not end (the step
  returned by the partition may be zero), so both take fuel: one unit for each call and
  each test of the loop. \<open>None\<close> is also the result when the fuel runs out.
\<close>

fun computeDataSize :: "env \<Rightarrow> nat \<Rightarrow> real \<Rightarrow> real \<Rightarrow> nat \<Rightarrow> slab \<Rightarrow> (real \<times> slab) option"
  and computeDataSize_while :: "env \<Rightarrow> nat \<Rightarrow> real \<Rightarrow> real \<Rightarrow> nat \<Rightarrow> slab \<Rightarrow> slab option" where
  "computeDataSize E 0 a b offset s = None"
| "computeDataSize E (Suc fuel) a b offset s =
     (case computeEndTime E a b offset s of (b1, end_pos, s1) \<Rightarrow> do {
        s2 \<leftarrow> iterate (mark_u b1) [offset..<end_pos] s1;
        let s3 = s2\<lparr>ns := ns s2 + 1, ne := ne s2 + (end_pos - offset),
                    nj := nj s2 + nsize E * (end_pos - offset)\<rparr>;
        s4 \<leftarrow> iterate (count_nd E) [offset..<end_pos] s3;
        s5 \<leftarrow> computeDataSize_while E fuel a b1 end_pos s4;
        Some (b1, s5)
      })"
| "computeDataSize_while E 0 t b end_pos s = None"
| "computeDataSize_while E (Suc fuel) t b end_pos s =
     (if t < b \<and> end_pos < length (indices s) then
        (case computeDataSize E fuel t b end_pos s of
           None \<Rightarrow> None
         | Some (t1, s1) \<Rightarrow> computeDataSize_while E fuel t1 b end_pos s1)
      else Some s)"

definition allocData :: "env \<Rightarrow> nat \<Rightarrow> real \<Rightarrow> real \<Rightarrow> slab \<Rightarrow> slab option" where
  "allocData E fuel a b s = do {
     s1 \<leftarrow> iterate (\<lambda>i s. map_option (\<lambda>uu. s\<lparr>u := uu\<rparr>) (wr (u s) i a)) [0..<N E] s;
     let s2 = s1\<lparr>ns := 0, ne := 0, nj := 0, nd := 0\<rparr>;
     (b1, s3) \<leftarrow> computeDataSize E fuel a b 0 s2;
     let s4 = alloc_d (nd s3) (alloc_j (nj s3) (alloc_e (ne s3) (alloc_s (ns s3) s3)));
     iterate (\<lambda>d s. map_option (\<lambda>x. s\<lparr>de := x\<rparr>) (wr (de s) d (-1))) [0..<nd s4] s4
   }"

subsection \<open>Creation\<close>

definition create_j :: "env \<Rightarrow> nat \<Rightarrow> slab \<Rightarrow> slab option" where
  "create_j E index s = do {
     _ \<leftarrow> dolfin_assert E (0 < size_j_next s + nsize E
                           \<and> size_j_next s + nsize E - 1 < size_j_size s);
     let pos = size_j_next s;
     let s1 = s\<lparr>size_j_next := size_j_next s + nsize E\<rparr>;
     iterate (\<lambda>n s. do {
                x \<leftarrow> rd (u0 s) index;
                v \<leftarrow> wr (jx s) (pos + n) x;
                Some (s\<lparr>jx := v\<rparr>)
              }) [0..<nsize E] s1
   }"

fun find_slot :: "int list \<Rightarrow> nat \<Rightarrow> nat \<Rightarrow> nat option option" where
  \<comment> \<open>the search for an empty position from \<open>d\<close>, with \<open>n\<close> positions left: \<open>Some None\<close>
      when there is none\<close>
  "find_slot xs d 0 = Some None"
| "find_slot xs d (Suc n) = do {
     x \<leftarrow> rd xs d;
     if x = -1 then Some (Some d) else find_slot xs (Suc d) n
   }"

definition create_d_dof ::
  "env \<Rightarrow> nat \<Rightarrow> real \<Rightarrow> real \<Rightarrow> int \<Rightarrow> real \<Rightarrow> real \<Rightarrow> nat \<Rightarrow> slab \<Rightarrow> slab option" where
  \<comment> \<open>the body of the loop over the dofs \<open>n\<close> of the other element \<open>e1\<close>\<close>
  "create_d_dof E e0 a0 b0 e1 a1 k1 n s =
     (let t = a1 + k1 * npoint E n in
      if within3 E t a0 b0 then do {
        lo \<leftarrow> rdi (ed s) e1;
        hi \<leftarrow> rdi (ed s) (e1 + 1);
        r \<leftarrow> find_slot (de s) lo (hi - lo);
        (case r of
           Some d \<Rightarrow> Some (s\<lparr>de := (de s)[d := int e0]\<rparr>)
         | None \<Rightarrow> do { _ \<leftarrow> dolfin_assert E False; Some s })
      } else Some s)"

definition create_d_dep ::
  "env \<Rightarrow> nat \<Rightarrow> nat \<Rightarrow> real \<Rightarrow> real \<Rightarrow> nat \<Rightarrow> slab \<Rightarrow> slab option" where
  \<comment> \<open>the body of the loop over the components \<open>i1\<close> of \<open>ode.transpose[i0]\<close>\<close>
  "create_d_dep E e0 s0 a0 b0 i1 s = do {
     e1 \<leftarrow> rd (elast s) i1;
     if e1 = -1 then Some s
     else do {
       s1 \<leftarrow> rdi (es s) e1;
       a1 \<leftarrow> rd (sa s) s1;
       b1 \<leftarrow> rd (sb s) s1;
       let k1 = b1 - a1;
       if \<not> within4 E a0 b0 a1 b1 \<or> s0 = s1 then Some s
       else iterate (create_d_dof E e0 a0 b0 e1 a1 k1) [0..<nsize E] s
     }
   }"

definition create_d :: "env \<Rightarrow> nat \<Rightarrow> nat \<Rightarrow> nat \<Rightarrow> real \<Rightarrow> real \<Rightarrow> slab \<Rightarrow> slab option" where
  "create_d E i0 e0 s0 a0 b0 s = do {
     deps \<leftarrow> rd (ode_transpose E) i0;
     iterate (create_d_dep E e0 s0 a0 b0) deps s
   }"

definition create_e :: "env \<Rightarrow> nat \<Rightarrow> nat \<Rightarrow> real \<Rightarrow> real \<Rightarrow> slab \<Rightarrow> slab option" where
  "create_e E index subslab a b s = do {
     _ \<leftarrow> dolfin_assert E (size_e_next s < size_e_size s);
     let pos = size_e_next s;
     ei1 \<leftarrow> wr (ei s) pos index;
     es1 \<leftarrow> wr (es s) pos subslab;
     el \<leftarrow> rd (elast s) index;
     ee1 \<leftarrow> wr (ee s) pos el;
     let s1 = s\<lparr>size_e_next := pos + 1, ei := ei1, es := es1, ee := ee1\<rparr>;
     s2 \<leftarrow> create_j E index s1;
     s3 \<leftarrow> create_d E index pos subslab a b s2;
     el1 \<leftarrow> wr (elast s3) index (int pos);
     Some (s3\<lparr>elast := el1\<rparr>)
   }"

primrec countDependencies_e :: "env \<Rightarrow> slab \<Rightarrow> real \<Rightarrow> nat list \<Rightarrow> nat option" where
  \<comment> \<open>the loop of \<open>countDependencies(i0, b0)\<close> over the dependencies \<open>deps\<close>\<close>
  "countDependencies_e E s b0 [] = Some 0"
| "countDependencies_e E s b0 (i1 # deps) = do {
     e1 \<leftarrow> rd (elast s) i1;
     c \<leftarrow> (if e1 = -1 then Some (nsize E)
           else do {
             s1 \<leftarrow> rdi (es s) e1;
             b1 \<leftarrow> rd (sb s) s1;
             Some (if b1 < (b0 - real_epsilon E) then nsize E else 0)
           });
     n \<leftarrow> countDependencies_e E s b0 deps;
     Some (c + n)
   }"

definition countDependencies2 :: "env \<Rightarrow> slab \<Rightarrow> nat \<Rightarrow> real \<Rightarrow> nat option" where
  \<comment> \<open>\<open>countDependencies(uint i0, real b0)\<close>\<close>
  "countDependencies2 E s i0 b0 = do {
     deps \<leftarrow> rd (ode_dependencies E) i0;
     countDependencies_e E s b0 deps
   }"

definition create_s_ed :: "env \<Rightarrow> real \<Rightarrow> nat \<Rightarrow> slab \<Rightarrow> slab option" where
  \<comment> \<open>the body of the second loop of \<open>create_s\<close>\<close>
  "create_s_ed E b0 n s = do {
     index \<leftarrow> rd (indices s) n;
     element \<leftarrow> rd (elast s) index;
     _ \<leftarrow> dolfin_assert E (element \<noteq> -1);
     c \<leftarrow> countDependencies2 E s index b0;
     let s1 = s\<lparr>size_d_next := size_d_next s + c\<rparr>;
     s2 \<leftarrow> (if element = 0 then map_option (\<lambda>x. s1\<lparr>ed := x\<rparr>) (wr (ed s1) 0 0)
            else Some s1);
     if element < int (ne s2) - 1
     then (if 0 \<le> element + 1
           then map_option (\<lambda>x. s2\<lparr>ed := x\<rparr>) (wr (ed s2) (nat (element + 1)) (size_d_next s2))
           else None)
     else Some s2
   }"

definition create_s :: "env \<Rightarrow> real \<Rightarrow> real \<Rightarrow> nat \<Rightarrow> nat \<Rightarrow> slab \<Rightarrow> slab option" where
  "create_s E a0 b0 offset end_pos s = do {
     _ \<leftarrow> dolfin_assert E (size_s_next s < size_s_size s);
     let pos = size_s_next s;
     sa1 \<leftarrow> wr (sa s) pos a0;
     sb1 \<leftarrow> wr (sb s) pos b0;
     let s1 = s\<lparr>size_s_next := pos + 1, sa := sa1, sb := sb1\<rparr>;
     s2 \<leftarrow> iterate (\<lambda>n s. do { i \<leftarrow> rd (indices s) n; create_e E i pos a0 b0 s })
             [offset..<end_pos] s1;
     iterate (create_s_ed E b0) [offset..<end_pos] s2
   }"

fun createTimeSlab :: "env \<Rightarrow> nat \<Rightarrow> real \<Rightarrow> real \<Rightarrow> nat \<Rightarrow> slab \<Rightarrow> (real \<times> slab) option"
  and createTimeSlab_while :: "env \<Rightarrow> nat \<Rightarrow> real \<Rightarrow> real \<Rightarrow> nat \<Rightarrow> slab \<Rightarrow> slab option" where
  "createTimeSlab E 0 a b offset s = None"
| "createTimeSlab E (Suc fuel) a b offset s =
     (case computeEndTime E a b offset s of (b1, end_pos, s1) \<Rightarrow> do {
        s2 \<leftarrow> create_s E a b1 offset end_pos s1;
        s3 \<leftarrow> createTimeSlab_while E fuel a b1 end_pos s2;
        Some (b1, s3)
      })"
| "createTimeSlab_while E 0 t b end_pos s = None"
| "createTimeSlab_while E (Suc fuel) t b end_pos s =
     (if t < b \<and> end_pos < length (indices s) then
        (case createTimeSlab E fuel t b end_pos s of
           None \<Rightarrow> None
         | Some (t1, s1) \<Rightarrow> createTimeSlab_while E fuel t1 b end_pos s1)
      else Some s)"

text \<open>
  \<open>build\<close>: the value of \<open>ode.update(u0, a, false)\<close> at the end is dropped by the code,
  and in the model the hook has no effect.
\<close>

definition build :: "env \<Rightarrow> nat \<Rightarrow> real \<Rightarrow> real \<Rightarrow> slab \<Rightarrow> (real \<times> slab) option" where
  "build E fuel a b s = do {
     s1 \<leftarrow> allocData E fuel a b s;
     s2 \<leftarrow> iterate (\<lambda>i s. map_option (\<lambda>x. s\<lparr>elast := x\<rparr>) (wr (elast s) i (-1))) [0..<N E] s1;
     let s3 = s2\<lparr>kmin := ode_endtime E\<rparr>;
     (b1, s4) \<leftarrow> createTimeSlab E fuel a b 0 s3;
     Some (b1, s4\<lparr>slab_a := a, slab_b := b1\<rparr>)
   }"

text \<open>
  The state a constructed time slab starts from: no arena allocated, \<open>elast\<close> all \<open>-1\<close>,
  \<open>u\<close> all zero, and the identity permutation in the partition. \<open>u0\<close> holds the initial
  values \<open>v\<close>; \<open>f0\<close> is allocated for cG only.
\<close>

definition init_slab :: "env \<Rightarrow> real list \<Rightarrow> slab" where
  "init_slab E v =
     \<lparr>sa = [], sb = [], ei = [], es = [], ee = [], ed = [], jx = [], de = [],
      ns = 0, ne = 0, nj = 0, nd = 0,
      size_s_next = 0, size_s_size = 0, size_e_next = 0, size_e_size = 0,
      size_j_next = 0, size_j_size = 0, size_d_next = 0, size_d_size = 0,
      elast = replicate (N E) (-1),
      f0 = (if mtype E = cG then replicate (N E) 0 else []),
      u = replicate (N E) 0, u0 = v,
      emax = 0, kmin = 0, slab_a = 0, slab_b = 0,
      indices = [0..<N E], written = [],
      messages = [''Computing transpose (inverse) of dependency pattern.'']\<rparr>"

subsection \<open>Evaluation of the right-hand side\<close>

definition initial_value :: "env \<Rightarrow> slab \<Rightarrow> int \<Rightarrow> nat \<Rightarrow> real option" where
  \<comment> \<open>\<open>x0 = ( ep != -1 ? jx[jp + last] : u0[i1] )\<close> with \<open>jp = ep * nn\<close>, \<open>last = nn - 1\<close>\<close>
  "initial_value E s ep i1 =
     (if ep \<noteq> -1 then rdi (jx s) (ep * int (nsize E) + (int (nsize E) - 1)) else rd (u0 s) i1)"

definition set_u :: "nat \<Rightarrow> real \<Rightarrow> slab \<Rightarrow> slab option" where
  \<comment> \<open>the assignment \<open>u[i] = x\<close>\<close>
  "set_u i x s = do { uu \<leftarrow> wr (u s) i x; Some (s\<lparr>u := uu\<rparr>) }"

definition cg_feval_left :: "env \<Rightarrow> nat \<Rightarrow> real \<Rightarrow> nat \<Rightarrow> slab \<Rightarrow> slab option" where
  \<comment> \<open>the body of the loop over the dependencies at the left end point\<close>
  "cg_feval_left E s0 a0 i1 s = do {
     e1 \<leftarrow> rd (elast s) i1;
     x \<leftarrow> (if e1 = -1 then rd (u0 s) i1
           else do {
             s1 \<leftarrow> rdi (es s) e1;
             if s1 = s0 then do { ep \<leftarrow> rdi (ee s) e1; initial_value E s ep i1 }
             else do {
               b1 \<leftarrow> rd (sb s) s1;
               if b1 < (a0 + real_epsilon E)
               then rdi (jx s) (e1 * int (nsize E) + (int (nsize E) - 1))
               else do {
                 a1 \<leftarrow> rd (sa s) s1;
                 let k1 = b1 - a1;
                 let tau = (a0 - a1) / k1;
                 ep \<leftarrow> rdi (ee s) e1;
                 x0 \<leftarrow> initial_value E s ep i1;
                 Some (ueval E x0 (drop (nat e1 * nsize E) (jx s)) tau)
               }
             }
           });
     set_u i1 x s
   }"

definition feval_peer :: "env \<Rightarrow> nat \<Rightarrow> real \<Rightarrow> nat \<Rightarrow> real \<Rightarrow> nat \<Rightarrow> slab \<Rightarrow> slab option" where
  \<comment> \<open>the body of the loop "update values for components with larger or equal time
      steps" at the quadrature point \<open>m\<close>, for cG and for dG\<close>
  "feval_peer E s0 a0 m t i1 s = do {
     e1 \<leftarrow> rd (elast s) i1;
     if e1 = -1 then Some s
     else do {
       s1 \<leftarrow> rdi (es s) e1;
       let j1 = nat e1 * nsize E;
       if s0 = s1 then do {
         x \<leftarrow> (case mtype E of cG \<Rightarrow> (if j1 + m = 0 then None else rd (jx s) (j1 + m - 1))
                             | dG \<Rightarrow> rd (jx s) (j1 + m));
         set_u i1 x s
       } else do {
         b1 \<leftarrow> rd (sb s) s1;
         if b1 < (a0 + real_epsilon E) then Some s
         else do {
           a1 \<leftarrow> rd (sa s) s1;
           let k1 = b1 - a1;
           let tau = (t - a1) / k1;
           x0 \<leftarrow> (case mtype E of
                   cG \<Rightarrow> do { ep \<leftarrow> rdi (ee s) e1; initial_value E s ep i1 }
                 | dG \<Rightarrow> Some 0);
           set_u i1 (ueval E x0 (drop j1 (jx s)) tau) s
         }
       }
     }
   }"

definition feval_small :: "env \<Rightarrow> real \<Rightarrow> nat \<Rightarrow> slab \<Rightarrow> slab option" where
  \<comment> \<open>the body of the loop "update values for components with smaller time steps":
      \<open>d\<close> is the position read by \<open>de[d++]\<close>\<close>
  "feval_small E t d s = do {
     e1 \<leftarrow> rd (de s) d;
     _ \<leftarrow> dolfin_assert E (e1 \<noteq> -1);
     i1 \<leftarrow> rdi (ei s) e1;
     x0 \<leftarrow> (case mtype E of
             cG \<Rightarrow> do { ep \<leftarrow> rdi (ee s) e1; initial_value E s ep i1 }
           | dG \<Rightarrow> Some 0);
     s1 \<leftarrow> rdi (es s) e1;
     a1 \<leftarrow> rd (sa s) s1;
     b1 \<leftarrow> rd (sb s) s1;
     let k1 = b1 - a1;
     let tau = (t - a1) / k1;
     let j1 = nat e1 * nsize E;
     set_u i1 (ueval E x0 (drop j1 (jx s)) tau) s
   }"

definition feval_point ::
  "env \<Rightarrow> nat \<Rightarrow> nat \<Rightarrow> real \<Rightarrow> real \<Rightarrow> nat list \<Rightarrow> nat \<Rightarrow> nat \<Rightarrow>
   real list \<times> nat \<times> slab \<Rightarrow> (real list \<times> nat \<times> slab) option" where
  \<comment> \<open>one turn of the loop over the quadrature points: the state is the buffer \<open>f\<close>,
      the position \<open>d\<close> in \<open>de\<close> and the slab\<close>
  "feval_point E s0 i0 a0 k0 deps ndep m fds =
     (case fds of (f, d, s) \<Rightarrow> do {
        let t = a0 + k0 * qpoint E m;
        s1 \<leftarrow> iterate (feval_peer E s0 a0 m t) deps s;
        s2 \<leftarrow> iterate (feval_small E t) [d..<d + ndep] s1;
        f1 \<leftarrow> wr f m (ode_f E (u s2) t i0);
        Some (f1, d + ndep, s2)
      })"

definition feval_ndep :: "env \<Rightarrow> nat \<Rightarrow> slab \<Rightarrow> (nat \<times> nat) option" where
  \<comment> \<open>the first position \<open>d = ed[e0]\<close> and the number \<open>ndep\<close> of dependencies for each
      nodal point; \<open>ne - 1\<close> is unsigned, and a division by zero does not return\<close>
  "feval_ndep E e0 s = do {
     d \<leftarrow> rd (ed s) e0;
     end_pos \<leftarrow> (if ne s = 0 \<or> e0 < ne s - 1 then rd (ed s) (e0 + 1) else Some (nd s));
     if nsize E = 0 then None
     else do {
       let ndep = (end_pos - d) div nsize E;
       _ \<leftarrow> dolfin_assert E (ndep * nsize E = end_pos - d);
       Some (d, ndep)
     }
   }"

definition cg_feval ::
  "env \<Rightarrow> real list \<Rightarrow> nat \<Rightarrow> nat \<Rightarrow> nat \<Rightarrow> real \<Rightarrow> real \<Rightarrow> real \<Rightarrow> slab \<Rightarrow> (real list \<times> slab) option" where
  "cg_feval E f s0 e0 i0 a0 b0 k0 s = do {
     deps \<leftarrow> rd (ode_dependencies E) i0;
     (f1, s1) \<leftarrow> (if a0 < (slab_a s + real_epsilon E) then do {
                    x \<leftarrow> rd (f0 s) i0;
                    fa \<leftarrow> wr f 0 x;
                    Some (fa, s)
                  } else do {
                    s1 \<leftarrow> iterate (cg_feval_left E s0 a0) deps s;
                    fa \<leftarrow> wr f 0 (ode_f E (u s1) a0 i0);
                    Some (fa, s1)
                  });
     (d, ndep) \<leftarrow> feval_ndep E e0 s1;
     (f2, d2, s2) \<leftarrow> iterate (feval_point E s0 i0 a0 k0 deps ndep) [1..<qsize E] (f1, d, s1);
     Some (f2, s2)
   }"

definition dg_feval ::
  "env \<Rightarrow> real list \<Rightarrow> nat \<Rightarrow> nat \<Rightarrow> nat \<Rightarrow> real \<Rightarrow> real \<Rightarrow> real \<Rightarrow> slab \<Rightarrow> (real list \<times> slab) option" where
  "dg_feval E f s0 e0 i0 a0 b0 k0 s = do {
     deps \<leftarrow> rd (ode_dependencies E) i0;
     (d, ndep) \<leftarrow> feval_ndep E e0 s;
     (f2, d2, s2) \<leftarrow> iterate (feval_point E s0 i0 a0 k0 deps ndep) [0..<qsize E] (f, d, s);
     Some (f2, s2)
   }"

subsection \<open>Why a dependency slot is written\<close>

definition slot_reason :: "env \<Rightarrow> slab \<Rightarrow> nat \<Rightarrow> nat list \<Rightarrow> nat \<Rightarrow> bool" where
  \<comment> \<open>why \<open>create_d\<close> for the element \<open>e0\<close> may write the position \<open>d\<close>: a component \<open>i1\<close>
      of \<open>deps\<close> has a latest element \<open>e1\<close> in another sub slab containing the sub slab
      of \<open>e0\<close>, \<open>d\<close> lies in the range of \<open>e1\<close>, and a nodal point of \<open>e1\<close> lies within the
      sub slab of \<open>e0\<close>\<close>
  "slot_reason E s e0 deps d \<longleftrightarrow>
     (\<exists>i1\<in>set deps. \<exists>e1 n. elast s ! i1 = int e1 \<and> n < nsize E
        \<and> ed s ! e1 \<le> d \<and> d < ed s ! (e1 + 1)
        \<and> es s ! e1 \<noteq> es s ! e0
        \<and> within4 E (sa s ! (es s ! e0)) (sb s ! (es s ! e0))
                     (sa s ! (es s ! e1)) (sb s ! (es s ! e1))
        \<and> within3 E (sa s ! (es s ! e1)
                       + (sb s ! (es s ! e1) - sa s ! (es s ! e1)) * npoint E n)
                     (sa s ! (es s ! e0)) (sb s ! (es s ! e0)))"

definition slots_inv :: "env \<Rightarrow> slab \<Rightarrow> nat \<Rightarrow> nat list \<Rightarrow> slab \<Rightarrow> bool" where
  "slots_inv E s e0 deps c \<longleftrightarrow>
     (\<exists>v. c = s\<lparr>de := v\<rparr>) \<and>
     (\<forall>d. de c ! d \<noteq> de s ! d \<longrightarrow>
        de c ! d = int e0 \<and> de s ! d = -1 \<and> slot_reason E s e0 deps d)"

subsection \<open>Invariants of the element graph\<close>

definition core ::
  "slab \<Rightarrow> nat list \<times> nat list \<times> int list \<times> int list \<times> real list \<times> real list
     \<times> nat \<times> nat \<times> nat list \<times> nat \<times> nat" where
  \<comment> \<open>the part of the state that the element graph consists of\<close>
  "core c = (ei c, es c, ee c, elast c, sa c, sb c, size_e_next c, size_s_next c, indices c,
             ns c, ne c)"



definition ext :: "slab \<Rightarrow> slab \<Rightarrow> bool" where
  \<comment> \<open>\<open>c'\<close> has the sub slabs and the elements of \<open>c\<close>, and possibly more\<close>
  "ext c c' \<longleftrightarrow>
     size_e_next c \<le> size_e_next c' \<and> size_s_next c \<le> size_s_next c'
     \<and> (\<forall>e<size_e_next c. ei c' ! e = ei c ! e \<and> es c' ! e = es c ! e \<and> ee c' ! e = ee c ! e)
     \<and> (\<forall>k<size_s_next c. sa c' ! k = sa c ! k \<and> sb c' ! k = sb c ! k)"






subsection \<open>What the specification says, for comparison\<close>

text \<open>
  The value of the element \<open>e\<close> of component \<open>i\<close> at time \<open>t\<close>, as the specification
  writes it: \<open>ueval(x0, jx + e*nsize, (t - a) / (b - a))\<close> on the sub slab of \<open>e\<close>, with
  \<open>x0\<close> the last dof of the previous element, or \<open>u0[i]\<close> when there is none.
\<close>

definition element_value :: "env \<Rightarrow> slab \<Rightarrow> nat \<Rightarrow> nat \<Rightarrow> real \<Rightarrow> real" where
  "element_value E s i e t =
     (let a = sa s ! (es s ! e); b = sb s ! (es s ! e);
          x0 = (if ee s ! e \<noteq> -1 then jx s ! (nat (ee s ! e) * nsize E + nsize E - 1) else u0 s ! i)
      in ueval E x0 (drop (e * nsize E) (jx s)) ((t - a) / (b - a)))"

text \<open>
  The specification's sampling law picks "the unique element of \<open>i\<close> containing \<open>t\<close>":
  \<open>usample_spec\<close> follows these words (an interval is read left-open, right-closed).
\<close>

definition containing :: "slab \<Rightarrow> nat \<Rightarrow> real \<Rightarrow> nat list" where
  "containing s i t =
     filter (\<lambda>e. ei s ! e = i \<and> sa s ! (es s ! e) < t \<and> t \<le> sb s ! (es s ! e)) [0..<ne s]"

definition usample_spec :: "env \<Rightarrow> slab \<Rightarrow> nat \<Rightarrow> real \<Rightarrow> real option" where
  "usample_spec E s i t =
     (case containing s i t of [e] \<Rightarrow> Some (element_value E s i e t) | _ \<Rightarrow> None)"



subsection \<open>A two-component example\<close>

text \<open>
  Component 0 depends on itself and on component 1, component 1 on itself. The
  partition takes one component for each level; component 0 accepts the step 1 and
  component 1 the step 1/4. The method is cG(1): one dof at the right end point.
\<close>

definition E1 :: env where
  "E1 = \<lparr>N = 2, ode_dependencies = [[0,1],[1]], ode_transpose = [[0],[0,1]],
     ode_f = (\<lambda>u t i. 0), ode_update = (\<lambda>u t e. True), ode_endtime = 1,
     mtype = cG, nsize = 1, qsize = 2, npoint = (\<lambda>n. 1), qpoint = (\<lambda>m. real m),
     ueval = (\<lambda>x0 dofs tau. x0 + tau * (hd dofs - x0)),
     kmax = 1, threshold = 1/2, residual = (\<lambda>i. 0),
     part_update = (\<lambda>idx off K. (idx, Suc off, min K (if off = 0 then 1 else 1/4))),
     real_epsilon = 1/1000000, save_final = False, debug = True\<rparr>"

text \<open>The slab that \<open>build\<close> makes of it on \<open>[0, 1]\<close> from the initial values \<open>[1, 2]\<close>.\<close>

definition built1 :: slab where
  "built1 = \<lparr>sa = [0, 0, 1 / 4, 1 / 2], sb = [1, 1 / 4, 1 / 2, 1],
         ei = [0, 1, 1, 1], es = [0, 1, 2, 3], ee = [- 1, - 1, 1, 2],
         ed = [0, 1, 1, 1], jx = [1, 2, 2, 2], de = [3], ns = 4, ne = 4,
         nj = 4, nd = 1, size_s_next = 4, size_s_size = 4, size_e_next = 4,
         size_e_size = 4, size_j_next = 4, size_j_size = 4, size_d_next = 1,
         size_d_size = 1, elast = [0, 3], f0 = [0, 0], u = [1, 1],
         u0 = [1, 2], emax = 0, kmin = 1 / 4, slab_a = 0, slab_b = 1,
         indices = [0, 1], written = [],
         messages =
           [''Computing transpose (inverse) of dependency pattern.'']\<rparr>"

text \<open>The same slab with dofs as a solver may leave them, and a hook that vetoes.\<close>

definition solved1 :: slab where
  "solved1 = built1\<lparr>jx := [1, 3, 5, 9]\<rparr>"

definition E1_veto :: env where
  "E1_veto = E1\<lparr>ode_update := (\<lambda>u t e. False)\<rparr>"


text \<open>
  The state in which \<open>create_e\<close> calls \<open>create_d\<close> for the last element of the example
  (element 3 of component 1, on the sub slab \<open>[1/2, 1]\<close>).
\<close>

definition pre1 :: slab where
  "pre1 = built1\<lparr>de := [-1], elast := [0, 2]\<rparr>"

subsection \<open>Two degenerate slabs\<close>

text \<open>
  The example \<open>E1\<close> on an interval shorter than \<open>real_epsilon\<close> is the first. The second
  is a method with two dofs for each element, at the nodal points 1/2 and 1 (as for
  cG(2)), on a slab of length one and a half \<open>real_epsilon\<close>, which component 1 covers in
  two steps.
\<close>

definition E2 :: env where
  "E2 = \<lparr>N = 2, ode_dependencies = [[0,1],[1]], ode_transpose = [[0],[0,1]],
     ode_f = (\<lambda>u t i. 0), ode_update = (\<lambda>u t e. True), ode_endtime = 1,
     mtype = cG, nsize = 2, qsize = 3, npoint = (\<lambda>n. if n = 0 then 1/2 else 1),
     qpoint = (\<lambda>m. real m / 2),
     ueval = (\<lambda>x0 dofs tau. x0),
     kmax = 1, threshold = 3/4, residual = (\<lambda>i. 0),
     part_update = (\<lambda>idx off K. (idx, Suc off, min K (if off = 0 then 1 else 3/4000000))),
     real_epsilon = 1/1000000, save_final = False, debug = True\<rparr>"

definition built2 :: slab where
  "built2 = \<lparr>sa = [0, 0, 3 / 4000000], sb = [3 / 2000000, 3 / 4000000, 3 / 2000000],
      ei = [0, 1, 1], es = [0, 1, 2], ee = [- 1, - 1, 1], ed = [0, 2, 2],
      jx = [1, 1, 2, 2, 2, 2], de = [1, - 1], ns = 3, ne = 3, nj = 6,
      nd = 2, size_s_next = 3, size_s_size = 3, size_e_next = 3,
      size_e_size = 3, size_j_next = 6, size_j_size = 6, size_d_next = 2,
      size_d_size = 2, elast = [0, 2], f0 = [0, 0],
      u = [3 / 2000000, 3 / 2000000], u0 = [1, 2], emax = 0,
      kmin = 3 / 4000000, slab_a = 0, slab_b = 3 / 2000000,
      indices = [0, 1], written = [],
      messages = [''Computing transpose (inverse) of dependency pattern.'']\<rparr>"

section \<open>Properties\<close>

text \<open>
  Claim C7. When the option "ODE implicit" is true, \<open>chooseSolver\<close> ends in the fatal
  error with its message, whatever "ODE nonlinear solver" is set to: no solver is built.
\<close>

theorem chooseSolver_implicit_fatal:
  "chooseSolver True solver_name =
     Inl ''Multi-adaptive solver cannot solver implicit ODEs. Use cG(q) or dG(q) instead.''"
  by (simp add: chooseSolver_def)

subsection \<open>The example\<close>

lemma build_E1: "build E1 20 0 1 (init_slab E1 [1, 2]) = Some (1, built1)"
  by code_simp

subsection \<open>Helper lemmas\<close>




lemma iterate_rel:
  assumes step: "\<And>x s s'. body x s = Some s' \<Longrightarrow> R s s'"
    and refl: "\<And>s. R s s" and trans: "\<And>a b c. R a b \<Longrightarrow> R b c \<Longrightarrow> R a c"
  shows "iterate body xs s = Some s' \<Longrightarrow> R s s'"
proof (induction xs arbitrary: s)
  case Nil
  then show ?case by (simp add: refl)
next
  case (Cons x xs)
  then obtain s1 where b: "body x s = Some s1" and r: "iterate body xs s1 = Some s'"
    by (auto split: option.splits)
  from step [OF b] Cons.IH [OF r] show ?case by (rule trans)
qed

lemma coverSweep_frame:
  "coverSweep E t n e s = Some s' \<Longrightarrow> s' = s\<lparr>elast := elast s', emax := emax s'\<rparr>"
proof (induction E t n e s rule: coverSweep.induct)
  case (1 E t e s)
  then show ?case by simp
next
  case (2 E t n e s)
  show ?case
    using "2.prems" "2.IH"
    by (fastforce simp: rd_def wr_def split: if_splits Option.bind_splits)
qed

lemma coverTime_frame:
  assumes "coverTime E t s = Some s'"
  shows "s' = s\<lparr>elast := elast s', emax := emax s'\<rparr>"
  using assms
  by (auto simp: coverTime_def Let_def split: Option.bind_splits if_splits prod.splits
      dest!: coverSweep_frame) 

lemma shift_u_frame: "shift_u E i s = Some s' \<Longrightarrow> s' = s\<lparr>u := u s'\<rparr>"
  by (auto simp: shift_u_def split: Option.bind_splits if_splits)

lemma shift_u0_frame: "shift_u0 i s = Some s' \<Longrightarrow> s' = s\<lparr>u0 := u0 s'\<rparr>"
  by (auto simp: shift_u0_def split: Option.bind_splits if_splits)

subsection \<open>Sampling\<close>




text \<open>After \<open>sample(1/8)\<close> the same query gives the value of the containing element.\<close>

lemma usample_after_sample:
  "(sample E1 (1/8) solved1 \<bind> (\<lambda>s. usample E1 s 1 (1/8))) = usample_spec E1 solved1 1 (1/8)"
  by code_simp

text \<open>
  Claim C10. \<open>ksample\<close> and \<open>rsample\<close> ignore their time argument: \<open>rsample\<close> returns the
  residual stored by the adaptivity, \<open>ksample\<close> the length of the sub slab of \<open>elast[i]\<close>,
  and both leave the slab as it is (no coverage sweep).
\<close>

theorem sample_time_ignored:
  "ksample E s i t1 = ksample E s i t2 \<and> rsample E s i t1 = rsample E s i t2
   \<and> rsample E s i t1 = Some (residual E i, s)
   \<and> ksample E s i t1 = map_option (\<lambda>k. (k, s)) (map_option fst (ksample E s i t1))
   \<and> (case ksample E s i t1 of None \<Rightarrow> True
       | Some (k, s1) \<Rightarrow> k = sb s ! (es s ! nat (elast s ! i)) - sa s ! (es s ! nat (elast s ! i)))"
  by (auto simp add: ksample_def rsample_def rd_def rdi_def dolfin_assert_def Let_def
        split: option.splits Option.bind_splits if_splits)

theorem sample_time_ignored_witness:
  "ksample E1 built1 1 0 = Some (1/2, built1) \<and> ksample E1 built1 1 (3/4) = Some (1/2, built1)
   \<and> rsample E1 built1 1 0 = rsample E1 built1 1 (3/4)"
proof -
  have "ksample E1 built1 1 0 = Some (1/2, built1)" by code_simp
  with sample_time_ignored [of E1 built1 1 0 "3/4"] show ?thesis by simp
qed

subsection \<open>Allocation\<close>



subsection \<open>Shifting\<close>

text \<open>
  Claim C5. When \<open>ode.update(u, _b, end)\<close> returns false in \<open>shift\<close>, \<open>shift\<close> returns
  false, \<open>u0\<close> keeps its values and no message is printed.
\<close>

theorem shift_veto:
  assumes "shift E end_flag s = Some (r, s')"
    and "\<not> ode_update E (u s') (slab_b s') end_flag"
  shows "r = False \<and> u0 s' = u0 s \<and> messages s' = messages s"
proof -
  from assms(1) obtain s1 s2 where c: "coverTime E (slab_b s) s = Some s1"
    and l: "iterate (shift_u E) [0..<N E] s1 = Some s2"
    by (auto simp: shift_def split: Option.bind_splits)
  define s3 where "s3 = (if save_final E \<and> end_flag
               then s2\<lparr>written := written s2 @ [take (N E) (u s2)]\<rparr> else s2)"
  have f1: "u0 s1 = u0 s \<and> messages s1 = messages s"
    using coverTime_frame [OF c] by (metis slab.select_convs slab.surjective slab.update_convs)
  have f2: "u0 s2 = u0 s1 \<and> messages s2 = messages s1"
    by (rule iterate_rel [where R = "\<lambda>x y. u0 y = u0 x \<and> messages y = messages x", OF _ _ _ l])
       (auto dest!: shift_u_frame, (metis slab.select_convs slab.surjective slab.update_convs)+)
  have f3: "u0 s3 = u0 s \<and> messages s3 = messages s"
    using f1 f2 by (simp add: s3_def)
  show ?thesis
  proof (cases "ode_update E (u s3) (slab_b s3) end_flag")
    case False
    with assms(1) c l have "r = False \<and> s' = s3"
      by (auto simp: shift_def s3_def Let_def split: Option.bind_splits if_splits)
    with f3 show ?thesis by simp
  next
    case True
    with assms(1) c l obtain s4 where i4: "iterate shift_u0 [0..<N E] s3 = Some s4" and "s' = s4"
      by (auto simp: shift_def s3_def Let_def split: Option.bind_splits if_splits)
    have "u s4 = u s3 \<and> slab_b s4 = slab_b s3"
      by (rule iterate_rel [where R = "\<lambda>x y. u y = u x \<and> slab_b y = slab_b x", OF _ _ _ i4])
         (auto dest!: shift_u0_frame, (metis slab.select_convs slab.surjective slab.update_convs)+)
    with True assms(2) \<open>s' = s4\<close> show ?thesis by simp
  qed
qed

theorem shift_veto_witness:
  "shift E1_veto True solved1 = Some (False, solved1\<lparr>u := [1, 9]\<rparr>)
   \<and> \<not> ode_update E1_veto (u (solved1\<lparr>u := [1, 9]\<rparr>)) (slab_b (solved1\<lparr>u := [1, 9]\<rparr>)) True
   \<and> u0 (solved1\<lparr>u := [1, 9]\<rparr>) = u0 solved1"
proof -
  have a: "shift E1_veto True solved1 = Some (False, solved1\<lparr>u := [1, 9]\<rparr>)"
    by code_simp
  have b: "\<not> ode_update E1_veto (u (solved1\<lparr>u := [1, 9]\<rparr>)) (slab_b (solved1\<lparr>u := [1, 9]\<rparr>)) True"
    by (simp add: E1_veto_def)
  from shift_veto [OF a b] a b show ?thesis by simp
qed


subsection \<open>Evaluation of the right-hand side\<close>











subsection \<open>Dependencies written by \<open>create_d\<close>\<close>

lemma find_slot_found:
  "find_slot xs lo n = Some (Some d) \<Longrightarrow> lo \<le> d \<and> d < lo + n \<and> d < length xs \<and> xs ! d = -1"
proof (induction xs lo n rule: find_slot.induct)
  case (1 xs d)
  then show ?case by simp
next
  case (2 xs lo n)
  from "2.prems" obtain x where x: "rd xs lo = Some x"
    by (cases "rd xs lo") simp_all
  then have l: "lo < length xs" "xs ! lo = x" by (auto simp: rd_def split: if_splits)
  show ?case
  proof (cases "x = -1")
    case True
    with "2.prems" x have "d = lo" by simp
    with l True show ?thesis by simp
  next
    case False
    with "2.prems" x have "find_slot xs (Suc lo) n = Some (Some d)" by simp
    from "2.IH" [OF x False this] show ?thesis by simp
  qed
qed

lemma create_d_dof_cases:
  assumes "create_d_dof E e0 a0 b0 (int e1) a1 k1 n c = Some c'"
  shows "c' = c \<or>
     (\<exists>d. within3 E (a1 + k1 * npoint E n) a0 b0 \<and> ed c ! e1 \<le> d \<and> d < ed c ! (e1 + 1)
          \<and> de c ! d = -1 \<and> c' = c\<lparr>de := (de c)[d := int e0]\<rparr>)"
proof (cases "within3 E (a1 + k1 * npoint E n) a0 b0")
  case False
  with assms show ?thesis by (simp add: create_d_dof_def Let_def)
next
  case True
  with assms obtain lo hi r where lo: "rdi (ed c) (int e1) = Some lo"
    and hi: "rdi (ed c) (int e1 + 1) = Some hi"
    and r: "find_slot (de c) lo (hi - lo) = Some r"
    by (auto simp: create_d_dof_def Let_def split: Option.bind_splits)
  have lo': "ed c ! e1 = lo" using lo by (simp add: rdi_def split: if_splits)
  have hi': "ed c ! (e1 + 1) = hi" using hi by (simp add: rdi_def nat_add_distrib split: if_splits)
  show ?thesis
  proof (cases r)
    case None
    with assms True lo hi r have "c' = c"
      by (simp add: create_d_dof_def Let_def dolfin_assert_def split: if_splits)
    then show ?thesis by simp
  next
    case (Some d)
    with assms True lo hi r have c': "c' = c\<lparr>de := (de c)[d := int e0]\<rparr>"
      by (simp add: create_d_dof_def Let_def)
    from find_slot_found [OF r [unfolded Some]] have "lo \<le> d" "d < lo + (hi - lo)" "de c ! d = -1"
      by simp_all
    with lo' hi' True c' show ?thesis by auto
  qed
qed

lemma slots_inv_write:
  assumes inv: "slots_inv E s e0 deps c"
    and free: "de c ! d = -1"
    and why: "slot_reason E s e0 deps d"
  shows "slots_inv E s e0 deps (c\<lparr>de := (de c)[d := int e0]\<rparr>)"
proof -
  from inv obtain v where v: "c = s\<lparr>de := v\<rparr>" by (auto simp: slots_inv_def)
  have orig: "de s ! d = -1"
  proof (rule ccontr)
    assume "de s ! d \<noteq> -1"
    with free have "de c ! d \<noteq> de s ! d" by simp
    with inv have "de c ! d = int e0" by (simp add: slots_inv_def)
    with free show False by simp
  qed
  have "de (c\<lparr>de := (de c)[d := int e0]\<rparr>) ! k = int e0 \<and> de s ! k = -1 \<and> slot_reason E s e0 deps k"
    if k: "de (c\<lparr>de := (de c)[d := int e0]\<rparr>) ! k \<noteq> de s ! k" for k
  proof (cases "k = d")
    case True
    have "(de c)[d := int e0] ! d = int e0"
    proof (cases "d < length (de c)")
      case True
      then show ?thesis by simp
    next
      case False
      then have "(de c)[d := int e0] = de c" by (simp add: list_update_beyond)
      with k \<open>k = d\<close> have "de c ! d \<noteq> de s ! d" by simp
      with inv have "de c ! d = int e0" by (simp add: slots_inv_def)
      with free show ?thesis by simp
    qed
    with True orig why show ?thesis by simp
  next
    case False
    with k have "de c ! k \<noteq> de s ! k" by simp
    with inv False show ?thesis by (simp add: slots_inv_def)
  qed
  moreover have "c\<lparr>de := (de c)[d := int e0]\<rparr> = s\<lparr>de := (de c)[d := int e0]\<rparr>"
    by (subst v) simp
  ultimately show ?thesis unfolding slots_inv_def by blast
qed

lemma frame_de:
  "c = s\<lparr>de := v\<rparr> \<Longrightarrow>
     elast c = elast s \<and> es c = es s \<and> ei c = ei s \<and> ee c = ee s \<and> jx c = jx s
     \<and> ed c = ed s \<and> sa c = sa s \<and> sb c = sb s \<and> u0 c = u0 s \<and> de c = v"
  by simp

lemma create_d_dofs_inv:
  assumes "iterate (create_d_dof E e0 (sa s ! (es s ! e0)) (sb s ! (es s ! e0)) (int e1)
              (sa s ! (es s ! e1)) (sb s ! (es s ! e1) - sa s ! (es s ! e1))) dofs c = Some c'"
    and "slots_inv E s e0 deps c"
    and "\<forall>n\<in>set dofs. n < nsize E"
    and "i1 \<in> set deps" and "elast s ! i1 = int e1" and "es s ! e1 \<noteq> es s ! e0"
    and "within4 E (sa s ! (es s ! e0)) (sb s ! (es s ! e0))
                     (sa s ! (es s ! e1)) (sb s ! (es s ! e1))"
  shows "slots_inv E s e0 deps c'"
  using assms(1,2,3)
proof (induction dofs arbitrary: c)
  case Nil
  then show ?case by simp
next
  case (Cons n dofs)
  from Cons.prems(1) obtain c1 where
    st: "create_d_dof E e0 (sa s ! (es s ! e0)) (sb s ! (es s ! e0)) (int e1)
              (sa s ! (es s ! e1)) (sb s ! (es s ! e1) - sa s ! (es s ! e1)) n c = Some c1"
    and r: "iterate (create_d_dof E e0 (sa s ! (es s ! e0)) (sb s ! (es s ! e0)) (int e1)
              (sa s ! (es s ! e1)) (sb s ! (es s ! e1) - sa s ! (es s ! e1))) dofs c1 = Some c'"
    by (auto split: option.splits)
  from Cons.prems(2) obtain v where v: "c = s\<lparr>de := v\<rparr>" by (auto simp: slots_inv_def)
  note same = frame_de [OF v]
  have "slots_inv E s e0 deps c1"
    using create_d_dof_cases [OF st]
  proof
    assume "c1 = c"
    with Cons.prems(2) show ?thesis by simp
  next
    assume "\<exists>d. within3 E (sa s ! (es s ! e1) + (sb s ! (es s ! e1) - sa s ! (es s ! e1)) * npoint E n)
              (sa s ! (es s ! e0)) (sb s ! (es s ! e0))
            \<and> ed c ! e1 \<le> d \<and> d < ed c ! (e1 + 1) \<and> de c ! d = - 1
            \<and> c1 = c\<lparr>de := (de c)[d := int e0]\<rparr>"
    then obtain d where w: "within3 E (sa s ! (es s ! e1) + (sb s ! (es s ! e1) - sa s ! (es s ! e1)) * npoint E n)
              (sa s ! (es s ! e0)) (sb s ! (es s ! e0))"
      and d: "ed s ! e1 \<le> d" "d < ed s ! (e1 + 1)" and free: "de c ! d = - 1"
      and c1: "c1 = c\<lparr>de := (de c)[d := int e0]\<rparr>"
      using same by auto
    have "n < nsize E" using Cons.prems(3) by simp
    with w d assms(4-7) have "slot_reason E s e0 deps d"
      unfolding slot_reason_def by blast
    from slots_inv_write [OF Cons.prems(2) free this] c1 show ?thesis by simp
  qed
  moreover have "\<forall>n\<in>set dofs. n < nsize E" using Cons.prems(3) by simp
  ultimately show ?case using Cons.IH [OF r] by blast
qed

lemma create_d_dep_inv:
  assumes "create_d_dep E e0 (es s ! e0) (sa s ! (es s ! e0)) (sb s ! (es s ! e0)) i1 c = Some c'"
    and inv: "slots_inv E s e0 deps c" and i1: "i1 \<in> set deps"
  shows "slots_inv E s e0 deps c'"
proof -
  from inv obtain v where v: "c = s\<lparr>de := v\<rparr>" by (auto simp: slots_inv_def)
  note same = frame_de [OF v]
  from assms(1) obtain e where e: "rd (elast c) i1 = Some e"
    by (cases "rd (elast c) i1") (simp_all add: create_d_dep_def)
  show ?thesis
  proof (cases "e = -1")
    case True
    with assms(1) e have "c' = c" by (simp add: create_d_dep_def)
    with inv show ?thesis by simp
  next
    case False
    with assms(1) e obtain s1 a1 b1 where s1: "rdi (es c) e = Some s1"
      and a1: "rd (sa c) s1 = Some a1" and b1: "rd (sb c) s1 = Some b1"
      by (auto simp: create_d_dep_def split: Option.bind_splits)
    from s1 have e0: "0 \<le> e" by (simp add: rdi_def split: if_splits)
    define e1 where "e1 = nat e"
    have ee: "e = int e1" using e0 by (simp add: e1_def)
    have el: "elast s ! i1 = int e1" using e ee same by (simp add: rd_def split: if_splits)
    have s1': "es s ! e1 = s1" using s1 ee same by (simp add: rdi_def split: if_splits)
    have a1': "sa s ! (es s ! e1) = a1" using a1 s1' same by (simp add: rd_def split: if_splits)
    have b1': "sb s ! (es s ! e1) = b1" using b1 s1' same by (simp add: rd_def split: if_splits)
    show ?thesis
    proof (cases "\<not> within4 E (sa s ! (es s ! e0)) (sb s ! (es s ! e0)) a1 b1 \<or> es s ! e0 = s1")
      case True
      with assms(1) e False s1 a1 b1 have "c' = c"
        by (simp add: create_d_dep_def Let_def)
      with inv show ?thesis by simp
    next
      case skip: False
      with assms(1) e False s1 a1 b1 ee
      have it: "iterate (create_d_dof E e0 (sa s ! (es s ! e0)) (sb s ! (es s ! e0)) (int e1)
              a1 (b1 - a1)) [0..<nsize E] c = Some c'"
        by (simp add: create_d_dep_def Let_def)
      show ?thesis
        by (rule create_d_dofs_inv [OF it [folded a1' b1'] inv _ i1 el])
           (use skip s1' a1' b1' in auto)
    qed
  qed
qed

lemma create_d_deps_inv:
  assumes "iterate (create_d_dep E e0 (es s ! e0) (sa s ! (es s ! e0)) (sb s ! (es s ! e0))) ds c = Some c'"
    and "slots_inv E s e0 deps c" and "set ds \<subseteq> set deps"
  shows "slots_inv E s e0 deps c'"
  using assms
proof (induction ds arbitrary: c)
  case Nil
  then show ?case by simp
next
  case (Cons i1 ds)
  from Cons.prems(1) obtain c1 where
    st: "create_d_dep E e0 (es s ! e0) (sa s ! (es s ! e0)) (sb s ! (es s ! e0)) i1 c = Some c1"
    and r: "iterate (create_d_dep E e0 (es s ! e0) (sa s ! (es s ! e0)) (sb s ! (es s ! e0))) ds c1 = Some c'"
    by (auto split: option.splits)
  have "slots_inv E s e0 deps c1"
    by (rule create_d_dep_inv [OF st Cons.prems(2)]) (use Cons.prems(3) in simp)
  with Cons.IH [OF r] Cons.prems(3) show ?case by simp
qed

text \<open>
  Claim C3. \<open>create_d\<close> for the element \<open>e0\<close> (called by \<open>create_e\<close> with the sub slab
  \<open>s0 = es[e0]\<close> and its interval \<open>a0 = sa[s0]\<close>, \<open>b0 = sb[s0]\<close>) changes a position \<open>d\<close> of
  \<open>de\<close> only from \<open>-1\<close> to \<open>e0\<close>, and only when \<open>d\<close> lies in the range of the latest element
  \<open>e1\<close> of a component of \<open>ode.transpose[i0]\<close> such that \<open>e1\<close> lies in another sub slab,
  the interval of \<open>e0\<close> is within that of \<open>e1\<close> (the four-argument \<open>within\<close>), and for a
  nodal point \<open>n\<close> of \<open>e1\<close> the time \<open>t = a1 + k1*npoint(n)\<close> satisfies
  \<open>a0 + eps < t \<le> b0 + eps\<close> (the three-argument \<open>within\<close>).
\<close>

theorem create_d_containment:
  assumes "create_d E i0 e0 s0 a0 b0 s = Some s'"
    and "es s ! e0 = s0" and "sa s ! s0 = a0" and "sb s ! s0 = b0"
    and "de s' ! d \<noteq> de s ! d"
  shows "de s' ! d = int e0 \<and> de s ! d = -1
     \<and> slot_reason E s e0 (ode_transpose E ! i0) d"
proof -
  from assms(1) obtain deps where deps: "rd (ode_transpose E) i0 = Some deps"
    and it: "iterate (create_d_dep E e0 s0 a0 b0) deps s = Some s'"
    by (auto simp: create_d_def split: Option.bind_splits)
  have d: "deps = ode_transpose E ! i0" using deps by (simp add: rd_def split: if_splits)
  have "s = s\<lparr>de := de s\<rparr>" by simp
  then have "slots_inv E s e0 deps s" unfolding slots_inv_def by blast
  from create_d_deps_inv [OF it [folded assms(2-4)] this]
  have "slots_inv E s e0 deps s'"
    using assms(2-4) by simp
  with assms(5) d show ?thesis by (simp add: slots_inv_def)
qed

theorem create_d_containment_witness:
  "create_d E1 1 3 3 (1/2) 1 pre1 = Some (pre1\<lparr>de := [3]\<rparr>)
   \<and> de (pre1\<lparr>de := [3]\<rparr>) ! 0 = 3 \<and> de pre1 ! 0 = -1
   \<and> slot_reason E1 pre1 3 (ode_transpose E1 ! 1) 0"
proof -
  have a: "create_d E1 1 3 3 (1/2) 1 pre1 = Some (pre1\<lparr>de := [3]\<rparr>)" by code_simp
  have b: "es pre1 ! 3 = 3" "sa pre1 ! 3 = 1/2" "sb pre1 ! 3 = 1" by code_simp+
  have c: "de (pre1\<lparr>de := [3]\<rparr>) ! 0 \<noteq> de pre1 ! 0" by code_simp
  from create_d_containment [OF a b c] a show ?thesis by simp
qed

subsection \<open>The element graph after \<open>build\<close>\<close>











lemma ext_core: "core c' = core c \<Longrightarrow> ext c c'"
  by (simp add: core_def ext_def)

lemma ext_core_left: "core c1 = core c \<Longrightarrow> ext c1 c' = ext c c'"
  by (simp add: core_def ext_def)












































subsection \<open>The dry run against the creation\<close>

text \<open>
  Claim C1 fails on the code. On the interval \<open>[0, eps/2]\<close> component 0 heads the first
  sub slab while component 1, on which it depends, has no element yet. The dry run
  compares \<open>u[0] = eps/2\<close> with \<open>u[1] + eps = eps\<close> and counts nothing (\<open>nd = 0\<close>); the
  creation finds \<open>elast[1] = -1\<close> and counts \<open>nsize\<close> slots (\<open>size_d.next = 1\<close>). The
  counters of sub slabs, elements and dofs agree. The tuple below lists
  \<open>ns, size_s.next, ne, size_e.next, nj, size_j.next, nd, size_d.next\<close> after \<open>build\<close>,
  then the capacity and the length of \<open>de\<close>, which \<open>alloc_d(nd)\<close> left empty, and the
  result of \<open>cg_feval\<close> for element 0, which reads \<open>de[ed[0]]\<close> beyond that capacity.
\<close>

theorem dry_run_mismatch:
  "map_option (\<lambda>(b, s). (ns s, size_s_next s, ne s, size_e_next s, nj s, size_j_next s,
                           nd s, size_d_next s, size_d_size s, length (de s),
                           cg_feval E1 [0, 0] 0 0 0 0 b b s))
     (build E1 20 0 (1/2000000) (init_slab E1 [1, 2]))
   = Some (2, 2, 2, 2, 2, 2, 0, 1, 0, 0, None)"
  by code_simp

text \<open>
  Claim C2 fails on the code. On a slab of length \<open>1.5 eps\<close> the element of component 0
  gets a range of two slots from the dry run. The first small element, on
  \<open>[0, 0.75 eps]\<close>, takes the slot for the nodal point \<open>1.5 eps\<close> (it is within \<open>eps\<close> of the
  right end); the nodal point \<open>0.75 eps\<close> is within \<open>eps\<close> of the left end of both small
  elements and of the right end of none that starts after it, so its slot keeps \<open>-1\<close>.
  \<open>build\<close> completes, with assertions compiled in; \<open>cg_feval\<close> then meets the \<open>-1\<close>.
\<close>

theorem unfilled_slot:
  "build E2 20 0 (3/2000000) (init_slab E2 [1, 2]) = Some (3/2000000, built2)
   \<and> nd built2 = 2 \<and> ed built2 ! 0 = 0 \<and> ed built2 ! 1 = 2 \<and> de built2 ! 1 = -1
   \<and> cg_feval E2 [0, 0, 0] 0 0 0 0 (3/2000000) (3/2000000) (built2\<lparr>elast := [0, 1]\<rparr>) = None"
  by code_simp


end
